theory Spec2Isabelle
  imports Complex_Main "HOL-Library.AList" "HOL-Library.Multiset"
    "HOL-Library.Char_ord" "HOL-Library.List_Lexorder"
begin

section \<open>Data model (models.py)\<close>

text \<open>
  The SQLAlchemy models become records. A nullable column is an \<open>option\<close>; a
  \<open>Float\<close> column holds an exact rational here (binary floating point, NaN and
  infinities are not modelled). The two \<open>Boolean\<close> columns are only ever read for
  their truth value, where SQL \<open>NULL\<close> and Python \<open>None\<close> behave as false, so
  they are plain \<open>bool\<close>. \<open>date_uploaded\<close> is always set by the application.
\<close>

record datetime =
  dt_year :: int
  dt_month :: nat
  dt_day :: nat
  dt_time :: nat

definition dt_le :: "datetime \<Rightarrow> datetime \<Rightarrow> bool" where
  "dt_le a b =
     (dt_year a < dt_year b \<or> (dt_year a = dt_year b \<and>
       (dt_month a < dt_month b \<or> (dt_month a = dt_month b \<and>
         (dt_day a < dt_day b \<or> (dt_day a = dt_day b \<and> dt_time a \<le> dt_time b))))))"

record User =
  user_id :: int
  username :: string
  role :: string

record PerformanceTarget =
  target_user_id :: "int option"
  target_amount :: "rat option"

record TaxEntry =
  entry_id :: int
  tax_item :: "string option"
  subhead :: "string option"
  rrr :: "string option"
  paydirect_ref :: "string option"
  rrr_verified :: bool
  paydirect_verified :: bool
  rrr_amount :: "rat option"
  paydirect_amount :: "rat option"
  uploaded_by :: "int option"
  data :: "(string \<times> string) list"
  date_uploaded :: datetime
  month :: "int option"
  year :: "int option"

text \<open>Python truthiness of an optional string: \<open>None\<close> and \<open>''\<close> are falsy.\<close>

fun truthy :: "string option \<Rightarrow> bool" where
  "truthy None = False"
| "truthy (Some s) = (s \<noteq> [])"

text \<open>\<open>x or 0\<close> on an optional number.\<close>

fun or0 :: "rat option \<Rightarrow> rat" where
  "or0 None = 0"
| "or0 (Some v) = v"

section \<open>Payment verification (payment\_api.py)\<close>

text \<open>
  What the HTTP exchange of the live branch can produce, as far as the code
  distinguishes it: a \<open>RequestException\<close> (including a bad status from
  \<open>raise_for_status\<close>), a body that is not JSON by its content type, a body that
  fails to decode, a JSON value that is not an object, or a JSON object of which the
  code reads \<open>status\<close> and \<open>amount\<close>. The \<open>amount\<close> member is absent, something
  \<open>float\<close> converts (a number or a numeric string), a string \<open>float\<close> rejects, or a
  value of another type (\<open>null\<close>, a list, an object).
\<close>

datatype json_amount =
    AmountAbsent
  | AmountNumber rat
  | AmountBadString
  | AmountNull

datatype http_reply =
    RequestFailed
  | UnexpectedContentType
  | JsonDecodeError
  | JsonNotObject
  | JsonObject "string option" json_amount

datatype exn = TypeError | AttributeError | ValueError

record verify_result =
  verified :: bool
  amount :: rat

text \<open>
  \<open>random.randint(a, b)\<close>: some integer of \<open>[a, b]\<close>, chosen by the generator's
  state, which is the extra argument.
\<close>

definition randint :: "int \<Rightarrow> int \<Rightarrow> nat \<Rightarrow> int" where
  "randint a b entropy = a + int entropy mod (b - a + 1)"

text \<open>
  The live branch, shared by both functions: \<open>float(...)\<close> of a string that is not
  a number raises \<open>ValueError\<close>, which is caught; of \<open>None\<close> it raises
  \<open>TypeError\<close>, which is not.
\<close>

fun live_result :: "http_reply \<Rightarrow> exn + verify_result" where
  "live_result RequestFailed = Inr \<lparr>verified = False, amount = 0\<rparr>"
| "live_result UnexpectedContentType = Inr \<lparr>verified = False, amount = 0\<rparr>"
| "live_result JsonDecodeError = Inr \<lparr>verified = False, amount = 0\<rparr>"
| "live_result JsonNotObject = Inl AttributeError"
| "live_result (JsonObject st AmountAbsent) =
     Inr \<lparr>verified = (st = Some ''SUCCESS''), amount = 0\<rparr>"
| "live_result (JsonObject st (AmountNumber a)) =
     Inr \<lparr>verified = (st = Some ''SUCCESS''), amount = a\<rparr>"
| "live_result (JsonObject st AmountBadString) = Inr \<lparr>verified = False, amount = 0\<rparr>"
| "live_result (JsonObject st AmountNull) = Inl TypeError"

definition verify_remita_rrr ::
  "bool \<Rightarrow> http_reply \<Rightarrow> nat \<Rightarrow> string option \<Rightarrow> exn + verify_result" where
  "verify_remita_rrr USE_LIVE_API reply entropy r =
     (if \<not> truthy r then Inr \<lparr>verified = False, amount = 0\<rparr>
      else if USE_LIVE_API then live_result reply
      else Inr \<lparr>verified = True, amount = of_int (randint 10000 200000 entropy)\<rparr>)"

definition verify_paydirect_reference ::
  "bool \<Rightarrow> http_reply \<Rightarrow> nat \<Rightarrow> string option \<Rightarrow> exn + verify_result" where
  "verify_paydirect_reference USE_LIVE_API reply entropy reference =
     (if \<not> truthy reference then Inr \<lparr>verified = False, amount = 0\<rparr>
      else if USE_LIVE_API then live_result reply
      else Inr \<lparr>verified = True, amount = of_int (randint 15500 502000 entropy)\<rparr>)"

section \<open>The entry store and its request handlers (app.py)\<close>

text \<open>
  The store is the list of \<open>tax_entry\<close> rows. Everything a handler reads from
  outside the store is in \<open>world\<close>: the process-wide \<open>USE_LIVE_API\<close> flag, what
  each verifier's HTTP exchange and random generator would produce, and the readings
  of \<open>datetime.utcnow()\<close>. A commit fails only by the unique constraints; other
  failures of the database are outside the model.
\<close>

record world =
  USE_LIVE_API :: bool
  remita_reply :: http_reply
  remita_entropy :: nat
  paydirect_reply :: http_reply
  paydirect_entropy :: nat
  utcnow_collection :: string
  utcnow_now :: datetime
  utcnow_uploaded :: datetime

datatype verifier_call = CallRemita "string option" | CallPayDirect "string option"

datatype error =
    DuplicateRRR
  | DuplicatePayDirect
  | IntegrityError
  | CannotDeleteVerified
  | NotFound
  | Uncaught exn

text \<open>
  The \<open>unique=True\<close> constraints on \<open>rrr\<close> and \<open>paydirect_ref\<close>: a commit fails
  when a stored row already holds the same non-NULL value (SQL \<open>NULL\<close>s never
  collide).
\<close>

definition unique_violation :: "TaxEntry list \<Rightarrow> TaxEntry \<Rightarrow> bool" where
  "unique_violation store e =
     list_ex (\<lambda>x. (rrr e \<noteq> None \<and> rrr x = rrr e)
                  \<or> (paydirect_ref e \<noteq> None \<and> paydirect_ref x = paydirect_ref e)) store"

definition next_id :: "TaxEntry list \<Rightarrow> int" where
  "next_id store = fold max (map entry_id store) 0 + 1"

text \<open>
  \<open>submit_tax_item\<close>: the posted form is an association list (\<open>request.form.get\<close>
  reads the first value of a key, \<open>request.form.items()\<close> lists each key once with
  its first value). \<open>new_entry\<close> is the row the handler builds; the result is the
  outcome, the store afterwards and the verifier calls made, in order.
\<close>

definition new_entry ::
  "world \<Rightarrow> int \<Rightarrow> (string \<times> string) list \<Rightarrow> TaxEntry list
     \<Rightarrow> verify_result \<Rightarrow> verify_result \<Rightarrow> TaxEntry" where
  "new_entry w current_user form store rrr_result paydirect_result =
     (let item = map_of form ''tax_item'';
          road_subhead = (if item = Some ''Road'' then map_of form ''road_subhead'' else None);
          fields = AList.update ''date_of_collection'' (utcnow_collection w)
                     (filter (\<lambda>(key, v). key \<notin> set [''tax_item'', ''road_subhead'',
                                                     ''remita_rrr'', ''paydirect''])
                        (AList.clearjunk form))
      in \<lparr>entry_id = next_id store,
          tax_item = item,
          subhead = road_subhead,
          rrr = map_of form ''remita_rrr'',
          paydirect_ref = map_of form ''paydirect'',
          rrr_verified = verified rrr_result,
          paydirect_verified = verified paydirect_result,
          rrr_amount = Some (amount rrr_result),
          paydirect_amount = Some (amount paydirect_result),
          uploaded_by = Some current_user,
          data = fields,
          date_uploaded = utcnow_uploaded w,
          month = Some (int (dt_month (utcnow_now w))),
          year = Some (dt_year (utcnow_now w))\<rparr>)"

definition submit_tax_item ::
  "world \<Rightarrow> int \<Rightarrow> (string \<times> string) list \<Rightarrow> TaxEntry list
     \<Rightarrow> (error + unit) \<times> TaxEntry list \<times> verifier_call list" where
  "submit_tax_item w current_user form store =
     (let remita_rrr = map_of form ''remita_rrr'';
          paydirect = map_of form ''paydirect''
      in if truthy remita_rrr \<and> list_ex (\<lambda>e. rrr e = remita_rrr) store
         then (Inl DuplicateRRR, store, [])
         else if truthy paydirect \<and> list_ex (\<lambda>e. paydirect_ref e = paydirect) store
         then (Inl DuplicatePayDirect, store, [])
         else
           let calls1 = (if truthy remita_rrr then [CallRemita remita_rrr] else [])
           in case (if truthy remita_rrr
                    then verify_remita_rrr (USE_LIVE_API w) (remita_reply w) (remita_entropy w)
                           remita_rrr
                    else Inr \<lparr>verified = False, amount = 0\<rparr>) of
                Inl x \<Rightarrow> (Inl (Uncaught x), store, calls1)
              | Inr rrr_result \<Rightarrow>
                 let calls2 = calls1 @ (if truthy paydirect then [CallPayDirect paydirect] else [])
                 in case (if truthy paydirect
                          then verify_paydirect_reference (USE_LIVE_API w) (paydirect_reply w)
                                 (paydirect_entropy w) paydirect
                          else Inr \<lparr>verified = False, amount = 0\<rparr>) of
                      Inl x \<Rightarrow> (Inl (Uncaught x), store, calls2)
                    | Inr paydirect_result \<Rightarrow>
                       let e = new_entry w current_user form store rrr_result paydirect_result
                       in if unique_violation store e
                          then (Inl IntegrityError, store, calls2)
                          else (Inr (), store @ [e], calls2))"

text \<open>\<open>delete_entry\<close>: \<open>get_or_404\<close>, then the guard on the two flags.\<close>

definition delete_entry :: "int \<Rightarrow> TaxEntry list \<Rightarrow> (error + unit) \<times> TaxEntry list" where
  "delete_entry i store =
     (case find (\<lambda>e. entry_id e = i) store of
        None \<Rightarrow> (Inl NotFound, store)
      | Some entry \<Rightarrow>
          if \<not> rrr_verified entry \<and> \<not> paydirect_verified entry
          then (Inr (), filter (\<lambda>e. entry_id e \<noteq> i) store)
          else (Inl CannotDeleteVerified, store))"

text \<open>
  \<open>reverify_entry\<close>: each channel with a truthy reference is verified again and its
  flag and amount overwritten; nothing is committed when a verifier raises.
\<close>

definition reverify_entry ::
  "world \<Rightarrow> int \<Rightarrow> TaxEntry list \<Rightarrow> (error + unit) \<times> TaxEntry list \<times> verifier_call list" where
  "reverify_entry w i store =
     (case find (\<lambda>e. entry_id e = i) store of
        None \<Rightarrow> (Inl NotFound, store, [])
      | Some entry \<Rightarrow>
          let calls1 = (if truthy (rrr entry) then [CallRemita (rrr entry)] else [])
          in case (if truthy (rrr entry)
                   then (case verify_remita_rrr (USE_LIVE_API w) (remita_reply w)
                                (remita_entropy w) (rrr entry) of
                           Inl x \<Rightarrow> Inl x
                         | Inr rrr_result \<Rightarrow>
                             Inr (entry\<lparr>rrr_verified := verified rrr_result,
                                        rrr_amount := Some (amount rrr_result)\<rparr>))
                   else Inr entry) of
               Inl x \<Rightarrow> (Inl (Uncaught x), store, calls1)
             | Inr entry1 \<Rightarrow>
                let calls2 = calls1 @ (if truthy (paydirect_ref entry1)
                                        then [CallPayDirect (paydirect_ref entry1)] else [])
                in case (if truthy (paydirect_ref entry1)
                         then (case verify_paydirect_reference (USE_LIVE_API w)
                                      (paydirect_reply w) (paydirect_entropy w)
                                      (paydirect_ref entry1) of
                                 Inl x \<Rightarrow> Inl x
                               | Inr paydirect_result \<Rightarrow>
                                   Inr (entry1\<lparr>paydirect_verified := verified paydirect_result,
                                               paydirect_amount := Some (amount paydirect_result)\<rparr>))
                         else Inr entry1) of
                     Inl x \<Rightarrow> (Inl (Uncaught x), store, calls2)
                   | Inr entry2 \<Rightarrow>
                       (Inr (), map (\<lambda>e. if entry_id e = i then entry2 else e) store, calls2))"

section \<open>Aggregation and ranking (app.py)\<close>

text \<open>
  Python's \<open>round(x, n)\<close> rounds half to even; on exact rationals it is the function
  below. \<open>list.sort(key=..., reverse=True)\<close> is a stable sort that keeps the input
  order of equal keys also when reversed: the list is reversed, sorted ascending by a
  stable sort and reversed again.
\<close>

definition round_half_even :: "rat \<Rightarrow> int" where
  "round_half_even x =
     (let f = \<lfloor>x\<rfloor>; d = x - of_int f
      in if d < 1 / 2 then f else if 1 / 2 < d then f + 1
         else if even f then f else f + 1)"

definition py_round :: "rat \<Rightarrow> nat \<Rightarrow> rat" where
  "py_round x n = of_int (round_half_even (x * 10 ^ n)) / 10 ^ n"

definition sort_reverse :: "('a \<Rightarrow> 'k::linorder) \<Rightarrow> 'a list \<Rightarrow> 'a list" where
  "sort_reverse key xs = rev (sort_key key (rev xs))"

text \<open>Truthiness of an optional number: \<open>None\<close> and \<open>0\<close> are falsy.\<close>

fun num_truthy :: "rat option \<Rightarrow> bool" where
  "num_truthy None = False"
| "num_truthy (Some v) = (v \<noteq> 0)"

definition get_target_for_ato :: "PerformanceTarget list \<Rightarrow> User \<Rightarrow> rat option" where
  "get_target_for_ato targets user =
     (case find (\<lambda>t. target_user_id t = Some (user_id user)) targets of
        None \<Rightarrow> Some 0
      | Some target_record \<Rightarrow> target_amount target_record)"

record league_entry =
  ato_name :: string
  target :: rat
  total_returns :: rat
  percent_met :: rat

definition get_league_table_data ::
  "User list \<Rightarrow> TaxEntry list \<Rightarrow> PerformanceTarget list \<Rightarrow> league_entry list" where
  "get_league_table_data users tax_entries targets =
     sort_reverse percent_met
       (map (\<lambda>ato.
          let entries = filter (\<lambda>e. uploaded_by e = Some (user_id ato)) tax_entries;
              total = sum_list (map (\<lambda>e. or0 (rrr_amount e) + or0 (paydirect_amount e))
                         (filter (\<lambda>e. rrr_verified e \<or> paydirect_verified e) entries));
              tgt = get_target_for_ato targets ato;
              percent = (if num_truthy tgt then py_round (total / or0 tgt * 100) 2 else 0)
          in \<lparr>ato_name = username ato, target = or0 tgt,
               total_returns = total, percent_met = percent\<rparr>)
          (filter (\<lambda>u. role u = ''ato'') users))"

text \<open>SQL \<open>SUM\<close> skips \<open>NULL\<close>s and is \<open>NULL\<close> when no value is left.\<close>

definition sql_sum :: "rat option list \<Rightarrow> rat option" where
  "sql_sum vs =
     (case filter (\<lambda>v. v \<noteq> None) vs of
        [] \<Rightarrow> None
      | w # ws \<Rightarrow> Some (sum_list (map or0 (w # ws))))"

text \<open>\<open>case((flag, amount), else_=0)\<close>\<close>

definition case_else0 :: "bool \<Rightarrow> rat option \<Rightarrow> rat option" where
  "case_else0 flag v = (if flag then v else Some 0)"

record user_summary =
  rrr_total :: rat
  paydirect_total :: rat
  total_amount :: rat

definition get_user_summary :: "TaxEntry list \<Rightarrow> int \<Rightarrow> user_summary" where
  "get_user_summary tax_entries uid =
     (let rows = filter (\<lambda>e. uploaded_by e = Some uid
                              \<and> (rrr_verified e \<or> paydirect_verified e)) tax_entries;
          rt = or0 (sql_sum (map rrr_amount rows));
          pt = or0 (sql_sum (map paydirect_amount rows))
      in \<lparr>rrr_total = rt, paydirect_total = pt, total_amount = rt + pt\<rparr>)"

text \<open>
  The administrators' branch of \<open>dashboards\<close> computes, for each ATO, the two channel
  totals with each channel's own flag (the recent records and the chart of the same
  loop are left out).
\<close>

record ato_summary =
  s_username :: string
  s_rrr_total :: rat
  s_paydirect_total :: rat
  s_total_amount :: rat
  s_target :: rat
  s_percent :: rat

definition dashboards ::
  "User list \<Rightarrow> TaxEntry list \<Rightarrow> PerformanceTarget list \<Rightarrow> ato_summary list" where
  "dashboards users tax_entries targets =
     map (\<lambda>ato.
        let entries = filter (\<lambda>e. uploaded_by e = Some (user_id ato)) tax_entries;
            rt = sum_list (map (\<lambda>e. or0 (rrr_amount e)) (filter rrr_verified entries));
            pt = sum_list (map (\<lambda>e. or0 (paydirect_amount e))
                   (filter paydirect_verified entries));
            combined_total = rt + pt;
            tgt = or0 (get_target_for_ato targets ato);
            percent = (if tgt \<noteq> 0 then py_round (combined_total / tgt * 100) 2 else 0)
        in \<lparr>s_username = username ato, s_rrr_total = rt, s_paydirect_total = pt,
             s_total_amount = combined_total, s_target = tgt, s_percent = percent\<rparr>)
       (filter (\<lambda>u. role u = ''ato'') users)"

subsection \<open>The league table route\<close>

text \<open>
  The query of \<open>league_table\<close>: \<open>user\<close> inner-joined with \<open>tax_entry\<close>, left-outer-joined
  with \<open>performance_target\<close>, restricted to role \<open>ato\<close> and to the date window, grouped
  by user and target amount. SQL leaves the order of the groups open; here it is the
  order in which they first appear. The bounds arrive as query-string values and are
  compared by the database, whose reading of such a string is the parameter
  \<open>db_datetime\<close>.
\<close>

record query_row =
  q_user_id :: int
  q_ATO :: string
  q_RRR :: "rat option"
  q_Paydirect :: "rat option"
  q_Target :: "rat option"

definition target_join :: "PerformanceTarget list \<Rightarrow> User \<Rightarrow> rat option list" where
  "target_join targets u =
     (case filter (\<lambda>t. target_user_id t = Some (user_id u)) targets of
        [] \<Rightarrow> [None]
      | t # ts \<Rightarrow> map target_amount (t # ts))"

fun first_occurrences :: "'a list \<Rightarrow> 'a list" where
  "first_occurrences [] = []"
| "first_occurrences (x # xs) = x # first_occurrences (filter (\<lambda>y. y \<noteq> x) xs)"

definition in_window ::
  "(string \<Rightarrow> datetime) \<Rightarrow> string option \<Rightarrow> string option \<Rightarrow> TaxEntry \<Rightarrow> bool" where
  "in_window db_datetime from_date to_date e =
     ((case from_date of
         None \<Rightarrow> True
       | Some f \<Rightarrow> if f = [] then True else dt_le (db_datetime f) (date_uploaded e))
      \<and> (case to_date of
           None \<Rightarrow> True
         | Some t \<Rightarrow> if t = [] then True else dt_le (date_uploaded e) (db_datetime t)))"

definition league_query ::
  "User list \<Rightarrow> TaxEntry list \<Rightarrow> PerformanceTarget list \<Rightarrow> (string \<Rightarrow> datetime)
     \<Rightarrow> string option \<Rightarrow> string option \<Rightarrow> query_row list" where
  "league_query users tax_entries targets db_datetime from_date to_date =
     (let joined = concat (map (\<lambda>u.
                     concat (map (\<lambda>e. map (\<lambda>t. (u, e, t)) (target_join targets u))
                        (filter (\<lambda>e. uploaded_by e = Some (user_id u)) tax_entries))) users);
          kept = filter (\<lambda>(u, e, t). role u = ''ato''
                            \<and> in_window db_datetime from_date to_date e) joined;
          keys = first_occurrences (map (\<lambda>(u, e, t). (user_id u, username u, t)) kept)
      in map (\<lambda>(uid, name, tgt).
            let grp = filter (\<lambda>(u, e, t). (user_id u, username u, t) = (uid, name, tgt)) kept
            in \<lparr>q_user_id = uid, q_ATO = name,
                 q_RRR = sql_sum (map (\<lambda>(u, e, t).
                           case_else0 (rrr_verified e) (rrr_amount e)) grp),
                 q_Paydirect = sql_sum (map (\<lambda>(u, e, t).
                                 case_else0 (paydirect_verified e) (paydirect_amount e)) grp),
                 q_Target = tgt\<rparr>) keys)"

record league_dict =
  l_user_id :: int
  ATO :: string
  RRR :: rat
  Paydirect :: rat
  Target :: rat
  Actual :: rat
  Percent :: rat

definition enrich :: "query_row \<Rightarrow> league_dict" where
  "enrich entry =
     (let r = or0 (q_RRR entry);
          p = or0 (q_Paydirect entry);
          tgt = or0 (q_Target entry);
          total = r + p;
          percent = (if tgt > 0 then py_round (total / tgt * 100) 2 else 0)
      in \<lparr>l_user_id = q_user_id entry, ATO = q_ATO entry, RRR = r, Paydirect = p,
           Target = tgt, Actual = total, Percent = percent\<rparr>)"

definition league_table ::
  "User list \<Rightarrow> TaxEntry list \<Rightarrow> PerformanceTarget list \<Rightarrow> (string \<Rightarrow> datetime)
     \<Rightarrow> string option \<Rightarrow> string option \<Rightarrow> league_dict list" where
  "league_table users tax_entries targets db_datetime from_date to_date =
     sort_reverse Percent
       (map enrich (league_query users tax_entries targets db_datetime from_date to_date))"

text \<open>
  The league of the administrators' \<open>dashboard\<close> (lines 354 to 367), from the rows of
  its query: one decimal, and the guard is the truth value of the target.
\<close>

record dashboard_dict =
  d_user_id :: int
  d_ATO :: string
  d_RRR :: "rat option"
  d_Paydirect :: "rat option"
  d_Target :: "rat option"
  d_Percent :: rat
  d_Actual :: rat

definition dashboard_enrich :: "query_row \<Rightarrow> dashboard_dict" where
  "dashboard_enrich entry =
     (let total = or0 (q_RRR entry) + or0 (q_Paydirect entry);
          tgt = or0 (q_Target entry);
          percent = (if tgt \<noteq> 0 then py_round (total / tgt * 100) 1 else 0)
      in \<lparr>d_user_id = q_user_id entry, d_ATO = q_ATO entry, d_RRR = q_RRR entry,
           d_Paydirect = q_Paydirect entry, d_Target = q_Target entry,
           d_Percent = percent, d_Actual = total\<rparr>)"

definition dashboard_league :: "query_row list \<Rightarrow> dashboard_dict list" where
  "dashboard_league league_rows = sort_reverse d_Percent (map dashboard_enrich league_rows)"

subsection \<open>The monthly series\<close>

text \<open>
  \<open>get_analytics_data_filtered\<close>: the bounds are parsed by \<open>datetime.strptime\<close>, a
  parameter here (\<open>None\<close> where it raises \<open>ValueError\<close>). The query groups the kept
  rows by the month of \<open>date_uploaded\<close>, in ascending order; the loop then reads, for
  each of the twelve months, the first group of that month through \<open>float(...)\<close>, which
  raises \<open>TypeError\<close> on a \<open>NULL\<close> sum.
\<close>

record analytics_row =
  a_month :: nat
  a_month_name :: string
  a_rrr :: rat
  a_paydirect :: rat
  a_total :: rat

definition month_name :: "string list" where
  "month_name = ['''', ''January'', ''February'', ''March'', ''April'', ''May'', ''June'',
     ''July'', ''August'', ''September'', ''October'', ''November'', ''December'']"

fun float :: "rat option \<Rightarrow> exn + rat" where
  "float None = Inl TypeError"
| "float (Some v) = Inr v"

definition parse_bound ::
  "(string \<Rightarrow> datetime option) \<Rightarrow> string option \<Rightarrow> exn + datetime option" where
  "parse_bound strptime d =
     (case d of
        None \<Rightarrow> Inr None
      | Some s \<Rightarrow>
          if s = [] then Inr None
          else (case strptime s of None \<Rightarrow> Inl ValueError | Some t \<Rightarrow> Inr (Some t)))"

definition monthly_query ::
  "TaxEntry list \<Rightarrow> datetime option \<Rightarrow> datetime option
     \<Rightarrow> (nat \<times> rat option \<times> rat option) list" where
  "monthly_query tax_entries from_date_obj to_date_obj =
     (let kept = filter (\<lambda>e.
                   (case from_date_obj of None \<Rightarrow> True | Some f \<Rightarrow> dt_le f (date_uploaded e))
                   \<and> (case to_date_obj of None \<Rightarrow> True | Some t \<Rightarrow> dt_le (date_uploaded e) t))
                   tax_entries
      in map (\<lambda>m.
            let grp = filter (\<lambda>e. dt_month (date_uploaded e) = m) kept
            in (m, sql_sum (map (\<lambda>e. case_else0 (rrr_verified e) (rrr_amount e)) grp),
                   sql_sum (map (\<lambda>e. case_else0 (paydirect_verified e) (paydirect_amount e))
                     grp)))
           (sort (remdups (map (\<lambda>e. dt_month (date_uploaded e)) kept))))"

definition month_row ::
  "(nat \<times> rat option \<times> rat option) list \<Rightarrow> nat \<Rightarrow> exn + analytics_row" where
  "month_row results m =
     (case (case find (\<lambda>r. fst r = m) results of
              None \<Rightarrow> Inr 0
            | Some r \<Rightarrow> float (fst (snd r))) of
        Inl x \<Rightarrow> Inl x
      | Inr r \<Rightarrow>
         (case (case find (\<lambda>r. fst r = m) results of
                  None \<Rightarrow> Inr 0
                | Some r \<Rightarrow> float (snd (snd r))) of
            Inl x \<Rightarrow> Inl x
          | Inr p \<Rightarrow> Inr \<lparr>a_month = m, a_month_name = month_name ! m,
                           a_rrr = r, a_paydirect = p, a_total = r + p\<rparr>))"

fun months_loop :: "(nat \<Rightarrow> exn + analytics_row) \<Rightarrow> nat list \<Rightarrow> exn + analytics_row list" where
  "months_loop body [] = Inr []"
| "months_loop body (m # ms) =
     (case body m of
        Inl x \<Rightarrow> Inl x
      | Inr row \<Rightarrow>
          (case months_loop body ms of Inl x \<Rightarrow> Inl x | Inr rows \<Rightarrow> Inr (row # rows)))"

definition get_analytics_data_filtered ::
  "(string \<Rightarrow> datetime option) \<Rightarrow> TaxEntry list \<Rightarrow> string option \<Rightarrow> string option
     \<Rightarrow> exn + analytics_row list" where
  "get_analytics_data_filtered strptime tax_entries from_date to_date =
     (case parse_bound strptime from_date of
        Inl x \<Rightarrow> Inl x
      | Inr from_date_obj \<Rightarrow>
         (case parse_bound strptime to_date of
            Inl x \<Rightarrow> Inl x
          | Inr to_date_obj \<Rightarrow>
              months_loop (month_row (monthly_query tax_entries from_date_obj to_date_obj))
                [1 ..< 13]))"

section \<open>Example data\<close>

definition example_time :: datetime where
  "example_time = \<lparr>dt_year = 2025, dt_month = 3, dt_day = 10, dt_time = 0\<rparr>"

definition mock_world :: world where
  "mock_world = \<lparr>USE_LIVE_API = False, remita_reply = RequestFailed, remita_entropy = 5,
     paydirect_reply = RequestFailed, paydirect_entropy = 9,
     utcnow_collection = ''2025-03-10'', utcnow_now = example_time,
     utcnow_uploaded = example_time\<rparr>"

definition first_form :: "(string \<times> string) list" where
  "first_form = [(''tax_item'', ''Market''), (''remita_rrr'', ''RRR-123''), (''paydirect'', '''')]"

definition second_form :: "(string \<times> string) list" where
  "second_form = [(''tax_item'', ''Market''), (''remita_rrr'', ''RRR-123''), (''payer'', ''B'')]"

definition example_entry :: TaxEntry where
  "example_entry = \<lparr>entry_id = 1, tax_item = Some ''Market'', subhead = None,
     rrr = Some ''R1'', paydirect_ref = None, rrr_verified = True,
     paydirect_verified = False, rrr_amount = Some 40000, paydirect_amount = Some 9999999,
     uploaded_by = Some 1, data = [], date_uploaded = example_time,
     month = Some 3, year = Some 2025\<rparr>"

definition unverified_entry :: TaxEntry where
  "unverified_entry = \<lparr>entry_id = 2, tax_item = Some ''Market'', subhead = None,
     rrr = None, paydirect_ref = Some ''P2'', rrr_verified = False,
     paydirect_verified = False, rrr_amount = Some 0, paydirect_amount = Some 500,
     uploaded_by = Some 1, data = [], date_uploaded = example_time,
     month = Some 3, year = Some 2025\<rparr>"

definition ada :: User where
  "ada = \<lparr>user_id = 1, username = ''ada'', role = ''ato''\<rparr>"

definition ada_target :: PerformanceTarget where
  "ada_target = \<lparr>target_user_id = Some 1, target_amount = Some 100000\<rparr>"

definition negative_target :: PerformanceTarget where
  "negative_target = \<lparr>target_user_id = Some 1, target_amount = Some (- 100000)\<rparr>"

definition live_world :: world where
  "live_world = \<lparr>USE_LIVE_API = True,
     remita_reply = JsonObject (Some ''SUCCESS'') (AmountNumber 40000), remita_entropy = 0,
     paydirect_reply = JsonObject (Some ''PENDING'') (AmountNumber 30000),
     paydirect_entropy = 0,
     utcnow_collection = ''2025-03-10'', utcnow_now = example_time,
     utcnow_uploaded = example_time\<rparr>"

definition pending_form :: "(string \<times> string) list" where
  "pending_form = [(''tax_item'', ''Market''), (''remita_rrr'', ''R1''), (''paydirect'', ''P1'')]"

definition mixed_entry :: TaxEntry where
  "mixed_entry = \<lparr>entry_id = 1, tax_item = Some ''Market'', subhead = None,
     rrr = Some ''R1'', paydirect_ref = Some ''P1'', rrr_verified = True,
     paydirect_verified = False, rrr_amount = Some 40000, paydirect_amount = Some 30000,
     uploaded_by = Some 1, data = [(''date_of_collection'', ''2025-03-10'')],
     date_uploaded = example_time, month = Some 3, year = Some 2025\<rparr>"

definition verified_entry :: TaxEntry where
  "verified_entry = \<lparr>entry_id = 1, tax_item = Some ''Market'', subhead = None,
     rrr = Some ''R1'', paydirect_ref = None, rrr_verified = True,
     paydirect_verified = False, rrr_amount = Some 40000, paydirect_amount = Some 0,
     uploaded_by = Some 1, data = [], date_uploaded = example_time,
     month = Some 3, year = Some 2025\<rparr>"

definition null_amount_entry :: TaxEntry where
  "null_amount_entry = \<lparr>entry_id = 1, tax_item = Some ''Market'', subhead = None,
     rrr = Some ''R1'', paydirect_ref = None, rrr_verified = True,
     paydirect_verified = False, rrr_amount = None, paydirect_amount = None,
     uploaded_by = Some 1, data = [], date_uploaded = example_time,
     month = Some 3, year = Some 2025\<rparr>"

definition tied_rows :: "query_row list" where
  "tied_rows = [\<lparr>q_user_id = 1, q_ATO = ''zed'', q_RRR = Some 100, q_Paydirect = Some 0,
                   q_Target = None\<rparr>,
                 \<lparr>q_user_id = 2, q_ATO = ''amy'', q_RRR = Some 50, q_Paydirect = Some 0,
                   q_Target = None\<rparr>]"

definition zed :: User where
  "zed = \<lparr>user_id = 1, username = ''zed'', role = ''ato''\<rparr>"

definition amy :: User where
  "amy = \<lparr>user_id = 2, username = ''amy'', role = ''ato''\<rparr>"

definition amy_entry :: TaxEntry where
  "amy_entry = \<lparr>entry_id = 2, tax_item = Some ''Market'', subhead = None,
     rrr = Some ''R2'', paydirect_ref = None, rrr_verified = True,
     paydirect_verified = False, rrr_amount = Some 50, paydirect_amount = Some 0,
     uploaded_by = Some 2, data = [], date_uploaded = example_time,
     month = Some 3, year = Some 2025\<rparr>"

definition april_first :: datetime where
  "april_first = \<lparr>dt_year = 2025, dt_month = 4, dt_day = 1, dt_time = 0\<rparr>"

definition db_example :: "string \<Rightarrow> datetime" where
  "db_example s = (if s = ''2025-04-01'' then april_first else example_time)"

definition strptime_example :: "string \<Rightarrow> datetime option" where
  "strptime_example s = (if s = ''2025-04-01'' then Some april_first else None)"

section \<open>Properties of the verifiers and the store handlers\<close>

lemma verify_absent:
  "\<not> truthy r \<Longrightarrow> verify_remita_rrr live reply n r = Inr \<lparr>verified = False, amount = 0\<rparr>"
  "\<not> truthy r \<Longrightarrow>
     verify_paydirect_reference live reply n r = Inr \<lparr>verified = False, amount = 0\<rparr>"
  by (simp_all add: verify_remita_rrr_def verify_paydirect_reference_def)

lemma randint_range: "a \<le> b \<Longrightarrow> a \<le> randint a b n \<and> randint a b n \<le> b"
  unfolding randint_def
  using pos_mod_bound[of "b - a + 1" "int n"] pos_mod_sign[of "b - a + 1" "int n"]
  by linarith

lemma randint_onto: "a \<le> v \<Longrightarrow> v \<le> b \<Longrightarrow> randint a b (nat (v - a)) = v"
  unfolding randint_def by simp

lemma verify_mock:
  "truthy r \<Longrightarrow> verify_remita_rrr False reply n r =
     Inr \<lparr>verified = True, amount = of_int (randint 10000 200000 n)\<rparr>"
  "truthy r \<Longrightarrow> verify_paydirect_reference False reply n r =
     Inr \<lparr>verified = True, amount = of_int (randint 15500 502000 n)\<rparr>"
  by (simp_all add: verify_remita_rrr_def verify_paydirect_reference_def)

lemma find_by_key:
  "e \<in> set xs \<Longrightarrow> distinct (map f xs) \<Longrightarrow> find (\<lambda>x. f x = f e) xs = Some e"
proof (induction xs)
  case Nil
  then show ?case by simp
next
  case (Cons a xs)
  show ?case
  proof (cases "a = e")
    case True
    then show ?thesis by simp
  next
    case False
    with Cons.prems have "e \<in> set xs" "f a \<notin> f ` set xs" "distinct (map f xs)" by auto
    then have "f a \<noteq> f e" by blast
    with Cons.IH \<open>e \<in> set xs\<close> \<open>distinct (map f xs)\<close> show ?thesis by simp
  qed
qed

lemma filter_by_key:
  assumes "distinct (map f xs)" and "e \<in> set xs"
  shows "filter (\<lambda>x. f x \<noteq> f e) xs = removeAll e xs"
proof -
  have "inj_on f (set xs)" using assms(1) by (simp add: distinct_map)
  then have "\<forall>x\<in>set xs. (f x \<noteq> f e) = (x \<noteq> e)" using assms(2) by (auto dest: inj_onD)
  then have "filter (\<lambda>x. f x \<noteq> f e) xs = filter (\<lambda>x. x \<noteq> e) xs"
    by (intro filter_cong) auto
  then show ?thesis by (simp add: removeAll_filter_not_eq) metis
qed

lemma new_entry_fields:
  "rrr (new_entry w u form store a b) = map_of form ''remita_rrr''"
  "paydirect_ref (new_entry w u form store a b) = map_of form ''paydirect''"
  "rrr_verified (new_entry w u form store a b) = verified a"
  "paydirect_verified (new_entry w u form store a b) = verified b"
  "rrr_amount (new_entry w u form store a b) = Some (amount a)"
  "paydirect_amount (new_entry w u form store a b) = Some (amount b)"
  "entry_id (new_entry w u form store a b) = next_id store"
  by (simp_all add: new_entry_def Let_def)

text \<open>A submission either appends one row, which collides with no stored reference, or
  fails and leaves the store as it was.\<close>

lemma submit_store:
  "submit_tax_item w u form store = (res, store', calls) \<Longrightarrow>
   (res = Inr () \<and> (\<exists>e. store' = store @ [e] \<and> rrr e = map_of form ''remita_rrr''
        \<and> paydirect_ref e = map_of form ''paydirect'' \<and> \<not> unique_violation store e))
   \<or> ((\<exists>x. res = Inl x) \<and> store' = store)"
  unfolding submit_tax_item_def Let_def
  by (auto split: if_splits sum.splits simp: new_entry_fields)

lemma submit_dup_rrr:
  "r \<noteq> [] \<Longrightarrow> map_of form ''remita_rrr'' = Some r \<Longrightarrow> list_ex (\<lambda>e. rrr e = Some r) store \<Longrightarrow>
   submit_tax_item w u form store = (Inl DuplicateRRR, store, [])"
  by (simp add: submit_tax_item_def Let_def)

lemma submit_dup_paydirect:
  "p \<noteq> [] \<Longrightarrow> map_of form ''paydirect'' = Some p \<Longrightarrow>
   list_ex (\<lambda>e. paydirect_ref e = Some p) store \<Longrightarrow>
   submit_tax_item w u form store = (Inl DuplicatePayDirect, store, [])
   \<or> submit_tax_item w u form store = (Inl DuplicateRRR, store, [])"
  by (simp add: submit_tax_item_def Let_def)

lemma submit_dup_any:
  assumes "(map_of form ''remita_rrr'' = Some r \<and> list_ex (\<lambda>e. rrr e = Some r) store)
         \<or> (map_of form ''paydirect'' = Some p \<and> list_ex (\<lambda>e. paydirect_ref e = Some p) store)"
  shows "fst (snd (submit_tax_item w u form store)) = store
       \<and> (\<exists>x. fst (submit_tax_item w u form store) = Inl x)"
proof -
  obtain res store' calls where s: "submit_tax_item w u form store = (res, store', calls)"
    by (metis prod_cases3)
  from submit_store[OF s] show ?thesis
  proof
    assume "res = Inr () \<and> (\<exists>e. store' = store @ [e] \<and> rrr e = map_of form ''remita_rrr''
        \<and> paydirect_ref e = map_of form ''paydirect'' \<and> \<not> unique_violation store e)"
    then obtain e where e: "rrr e = map_of form ''remita_rrr''"
      "paydirect_ref e = map_of form ''paydirect''" "\<not> unique_violation store e" by blast
    from assms e(1,2) have "unique_violation store e"
      by (auto simp: unique_violation_def list_ex_iff)
    with e(3) show ?thesis by simp
  next
    assume "(\<exists>x. res = Inl x) \<and> store' = store"
    then show ?thesis using s by auto
  qed
qed

lemma submit_no_raise:
  "\<not> USE_LIVE_API w \<Longrightarrow> fst (submit_tax_item w u form store) \<noteq> Inl (Uncaught x)"
  unfolding submit_tax_item_def Let_def
  by (auto split: if_splits sum.splits
      simp: verify_remita_rrr_def verify_paydirect_reference_def)

lemma submit_errors:
  "fst (submit_tax_item w u form store) = Inl x \<Longrightarrow>
   x \<in> {DuplicateRRR, DuplicatePayDirect, IntegrityError} \<or> (\<exists>ex. x = Uncaught ex)"
  unfolding submit_tax_item_def Let_def
  by (auto split: if_splits sum.splits)

lemma submit_fresh:
  assumes "\<not> USE_LIVE_API w"
    and "\<not> list_ex (\<lambda>e. rrr e = map_of form ''remita_rrr'') store"
    and "\<not> list_ex (\<lambda>e. paydirect_ref e = map_of form ''paydirect'') store"
  shows "fst (submit_tax_item w u form store) = Inr ()"
  using assms unfolding submit_tax_item_def Let_def
  by (auto split: if_splits sum.splits
      simp: verify_remita_rrr_def verify_paydirect_reference_def new_entry_fields
        unique_violation_def list_ex_iff)

lemmas eval_defs = submit_tax_item_def new_entry_def verify_remita_rrr_def
  verify_paydirect_reference_def randint_def next_id_def unique_violation_def Let_def

text \<open>
  C6. A submission whose RRR or PayDirect value already stands on a stored row fails and
  stores nothing; when that value is a non-empty reference the failure is the duplicate
  message of the pre-check, raised before any verifier is called, and in every case
  where no verifier raises it is one of the three duplicate outcomes. Submitting a
  reference twice: when the first submission succeeds, the store then holds exactly one
  row with the reference and the second submission is rejected, leaving that store as it
  is. A first submission of references the store does not hold succeeds (mock verifier).
\<close>

theorem duplicate_reference_rejected:
  "(((map_of form ''remita_rrr'' = Some r \<and> list_ex (\<lambda>e. rrr e = Some r) store)
      \<or> (map_of form ''paydirect'' = Some p \<and> list_ex (\<lambda>e. paydirect_ref e = Some p) store))
     \<longrightarrow> fst (snd (submit_tax_item w u form store)) = store
        \<and> (\<exists>x. fst (submit_tax_item w u form store) = Inl x
              \<and> (x \<in> {DuplicateRRR, DuplicatePayDirect, IntegrityError} \<or> (\<exists>ex. x = Uncaught ex)))
        \<and> (\<not> USE_LIVE_API w \<longrightarrow>
             fst (submit_tax_item w u form store)
               \<in> {Inl DuplicateRRR, Inl DuplicatePayDirect, Inl IntegrityError}))
   \<and> (r \<noteq> [] \<and> map_of form ''remita_rrr'' = Some r \<and> list_ex (\<lambda>e. rrr e = Some r) store
        \<longrightarrow> submit_tax_item w u form store = (Inl DuplicateRRR, store, []))
   \<and> (p \<noteq> [] \<and> map_of form ''paydirect'' = Some p
          \<and> list_ex (\<lambda>e. paydirect_ref e = Some p) store
        \<longrightarrow> submit_tax_item w u form store = (Inl DuplicatePayDirect, store, [])
          \<or> submit_tax_item w u form store = (Inl DuplicateRRR, store, []))
   \<and> (r \<noteq> [] \<and> map_of form ''remita_rrr'' = Some r
          \<and> submit_tax_item w u form store = (Inr (), store1, calls)
          \<and> map_of form2 ''remita_rrr'' = Some r
        \<longrightarrow> length (filter (\<lambda>e. rrr e = Some r) store1) = 1
          \<and> submit_tax_item w2 u2 form2 store1 = (Inl DuplicateRRR, store1, []))
   \<and> (p \<noteq> [] \<and> map_of form ''paydirect'' = Some p
          \<and> submit_tax_item w u form store = (Inr (), store1, calls)
          \<and> map_of form2 ''paydirect'' = Some p
        \<longrightarrow> length (filter (\<lambda>e. paydirect_ref e = Some p) store1) = 1
          \<and> fst (submit_tax_item w2 u2 form2 store1) \<in> {Inl DuplicatePayDirect, Inl DuplicateRRR}
          \<and> fst (snd (submit_tax_item w2 u2 form2 store1)) = store1)
   \<and> (\<not> USE_LIVE_API w
          \<and> \<not> list_ex (\<lambda>e. rrr e = map_of form ''remita_rrr'') store
          \<and> \<not> list_ex (\<lambda>e. paydirect_ref e = map_of form ''paydirect'') store
        \<longrightarrow> fst (submit_tax_item w u form store) = Inr ())"
proof (intro conjI impI)
  assume dup: "(map_of form ''remita_rrr'' = Some r \<and> list_ex (\<lambda>e. rrr e = Some r) store)
      \<or> (map_of form ''paydirect'' = Some p \<and> list_ex (\<lambda>e. paydirect_ref e = Some p) store)"
  from submit_dup_any[OF dup]
  show unchanged: "fst (snd (submit_tax_item w u form store)) = store" by simp
  from submit_dup_any[OF dup, of w u]
  obtain x where x: "fst (submit_tax_item w u form store) = Inl x" by blast
  with submit_errors[OF x]
  show "\<exists>x. fst (submit_tax_item w u form store) = Inl x
          \<and> (x \<in> {DuplicateRRR, DuplicatePayDirect, IntegrityError} \<or> (\<exists>ex. x = Uncaught ex))"
    by blast
  assume mock: "\<not> USE_LIVE_API w"
  from submit_errors[OF x] submit_no_raise[OF mock, of u form store] x
  show "fst (submit_tax_item w u form store)
          \<in> {Inl DuplicateRRR, Inl DuplicatePayDirect, Inl IntegrityError}"
    by auto
next
  assume "r \<noteq> [] \<and> map_of form ''remita_rrr'' = Some r \<and> list_ex (\<lambda>e. rrr e = Some r) store"
  then show "submit_tax_item w u form store = (Inl DuplicateRRR, store, [])"
    using submit_dup_rrr by blast
next
  assume "p \<noteq> [] \<and> map_of form ''paydirect'' = Some p
            \<and> list_ex (\<lambda>e. paydirect_ref e = Some p) store"
  then show "submit_tax_item w u form store = (Inl DuplicatePayDirect, store, [])
          \<or> submit_tax_item w u form store = (Inl DuplicateRRR, store, [])"
    using submit_dup_paydirect by blast
next
  assume a: "r \<noteq> [] \<and> map_of form ''remita_rrr'' = Some r
          \<and> submit_tax_item w u form store = (Inr (), store1, calls)
          \<and> map_of form2 ''remita_rrr'' = Some r"
  then have s: "submit_tax_item w u form store = (Inr (), store1, calls)" by simp
  from submit_store[OF s] obtain e where e: "store1 = store @ [e]" "rrr e = Some r"
    "\<not> unique_violation store e" using a by auto
  from e(2,3) have none: "filter (\<lambda>x. rrr x = Some r) store = []"
    by (auto simp: unique_violation_def list_ex_iff filter_empty_conv)
  with e(1,2) show one: "length (filter (\<lambda>e. rrr e = Some r) store1) = 1" by simp
  have "list_ex (\<lambda>x. rrr x = Some r) store1" using e(1,2) by (simp add: list_ex_iff)
  with a show "submit_tax_item w2 u2 form2 store1 = (Inl DuplicateRRR, store1, [])"
    using submit_dup_rrr by blast
next
  assume a: "p \<noteq> [] \<and> map_of form ''paydirect'' = Some p
          \<and> submit_tax_item w u form store = (Inr (), store1, calls)
          \<and> map_of form2 ''paydirect'' = Some p"
  then have s: "submit_tax_item w u form store = (Inr (), store1, calls)" by simp
  from submit_store[OF s] obtain e where e: "store1 = store @ [e]" "paydirect_ref e = Some p"
    "\<not> unique_violation store e" using a by auto
  from e(2,3) have none: "filter (\<lambda>x. paydirect_ref x = Some p) store = []"
    by (auto simp: unique_violation_def list_ex_iff filter_empty_conv)
  with e(1,2) show "length (filter (\<lambda>e. paydirect_ref e = Some p) store1) = 1" by simp
  have ex: "list_ex (\<lambda>x. paydirect_ref x = Some p) store1" using e(1,2) by (simp add: list_ex_iff)
  from a have "p \<noteq> []" "map_of form2 ''paydirect'' = Some p" by simp_all
  from submit_dup_paydirect[OF this ex, of w2 u2]
  show "fst (submit_tax_item w2 u2 form2 store1) \<in> {Inl DuplicatePayDirect, Inl DuplicateRRR}"
    by auto
  from submit_dup_paydirect[OF \<open>p \<noteq> []\<close> \<open>map_of form2 ''paydirect'' = Some p\<close> ex, of w2 u2]
  show "fst (snd (submit_tax_item w2 u2 form2 store1)) = store1" by auto
next
  assume "\<not> USE_LIVE_API w
          \<and> \<not> list_ex (\<lambda>e. rrr e = map_of form ''remita_rrr'') store
          \<and> \<not> list_ex (\<lambda>e. paydirect_ref e = map_of form ''paydirect'') store"
  then show "fst (submit_tax_item w u form store) = Inr ()"
    using submit_fresh by blast
qed

theorem duplicate_reference_rejected_witness:
  "fst (submit_tax_item mock_world 7 first_form []) = Inr ()
   \<and> length (filter (\<lambda>e. rrr e = Some ''RRR-123'')
        (fst (snd (submit_tax_item mock_world 7 first_form [])))) = 1
   \<and> submit_tax_item mock_world 7 second_form
        (fst (snd (submit_tax_item mock_world 7 first_form [])))
       = (Inl DuplicateRRR, fst (snd (submit_tax_item mock_world 7 first_form [])), [])"
  using duplicate_reference_rejected[of first_form "''RRR-123''" "[]" "''P''" mock_world 7
      "fst (snd (submit_tax_item mock_world 7 first_form []))"
      "snd (snd (submit_tax_item mock_world 7 first_form []))" second_form mock_world 7]
  by (simp add: eval_defs mock_world_def first_form_def second_form_def example_time_def)

text \<open>
  C7. For a stored entry (ids are the primary key), \<open>delete_entry\<close> succeeds exactly when
  neither flag is set; with a flag set it is rejected and the store is unchanged; on
  success exactly that entry is removed.
\<close>

theorem delete_entry_iff_unverified:
  assumes "e \<in> set store" and "distinct (map entry_id store)"
  shows "(fst (delete_entry (entry_id e) store) = Inr ()
            \<longleftrightarrow> \<not> rrr_verified e \<and> \<not> paydirect_verified e)
       \<and> (rrr_verified e \<or> paydirect_verified e
            \<longrightarrow> delete_entry (entry_id e) store = (Inl CannotDeleteVerified, store))
       \<and> (\<not> rrr_verified e \<and> \<not> paydirect_verified e
            \<longrightarrow> delete_entry (entry_id e) store = (Inr (), removeAll e store))"
proof -
  have f: "find (\<lambda>x. entry_id x = entry_id e) store = Some e"
    using assms by (rule find_by_key)
  have g: "filter (\<lambda>x. entry_id x \<noteq> entry_id e) store = removeAll e store"
    using assms(2,1) by (rule filter_by_key)
  show ?thesis by (simp add: delete_entry_def f g)
qed

theorem delete_entry_iff_unverified_witness:
  "example_entry \<in> set [example_entry, unverified_entry]
   \<and> unverified_entry \<in> set [example_entry, unverified_entry]
   \<and> distinct (map entry_id [example_entry, unverified_entry])
   \<and> delete_entry 1 [example_entry, unverified_entry]
       = (Inl CannotDeleteVerified, [example_entry, unverified_entry])
   \<and> delete_entry 2 [example_entry, unverified_entry] = (Inr (), [example_entry])"
  using delete_entry_iff_unverified[of example_entry "[example_entry, unverified_entry]"]
    delete_entry_iff_unverified[of unverified_entry "[example_entry, unverified_entry]"]
  by (simp add: example_entry_def unverified_entry_def)

text \<open>
  C8. For a reference that is \<open>None\<close> or empty, both verification functions return
  \<open>{verified: False, amount: 0}\<close> whatever the flag, the reply and the generator are (no
  exception), and \<open>submit_tax_item\<close> does not call the verifier of a channel whose
  reference is absent: the stored row has that channel unverified with amount 0.
\<close>

theorem absent_reference_unverified:
  "(\<not> truthy r \<longrightarrow>
      verify_remita_rrr live reply n r = Inr \<lparr>verified = False, amount = 0\<rparr>
    \<and> verify_paydirect_reference live reply n r = Inr \<lparr>verified = False, amount = 0\<rparr>)
   \<and> (\<not> truthy (map_of form ''remita_rrr'')
         \<and> submit_tax_item w u form store = (res, store', calls)
       \<longrightarrow> (\<forall>x. CallRemita x \<notin> set calls)
         \<and> (res = Inr () \<longrightarrow> (\<exists>e. store' = store @ [e] \<and> \<not> rrr_verified e
                                   \<and> rrr_amount e = Some 0)))
   \<and> (\<not> truthy (map_of form ''paydirect'')
         \<and> submit_tax_item w u form store = (res, store', calls)
       \<longrightarrow> (\<forall>x. CallPayDirect x \<notin> set calls)
         \<and> (res = Inr () \<longrightarrow> (\<exists>e. store' = store @ [e] \<and> \<not> paydirect_verified e
                                   \<and> paydirect_amount e = Some 0)))"
proof (intro conjI impI)
  assume "\<not> truthy r"
  then show "verify_remita_rrr live reply n r = Inr \<lparr>verified = False, amount = 0\<rparr>"
    and "verify_paydirect_reference live reply n r = Inr \<lparr>verified = False, amount = 0\<rparr>"
    by (simp_all add: verify_absent)
next
  assume a: "\<not> truthy (map_of form ''remita_rrr'')
         \<and> submit_tax_item w u form store = (res, store', calls)"
  then show "\<forall>x. CallRemita x \<notin> set calls"
    unfolding submit_tax_item_def Let_def by (auto split: if_splits sum.splits)
  assume "res = Inr ()"
  with a show "\<exists>e. store' = store @ [e] \<and> \<not> rrr_verified e \<and> rrr_amount e = Some 0"
    unfolding submit_tax_item_def Let_def
    by (auto split: if_splits sum.splits simp: new_entry_fields)
next
  assume a: "\<not> truthy (map_of form ''paydirect'')
         \<and> submit_tax_item w u form store = (res, store', calls)"
  then show "\<forall>x. CallPayDirect x \<notin> set calls"
    unfolding submit_tax_item_def Let_def by (auto split: if_splits sum.splits)
  assume "res = Inr ()"
  with a show "\<exists>e. store' = store @ [e] \<and> \<not> paydirect_verified e \<and> paydirect_amount e = Some 0"
    unfolding submit_tax_item_def Let_def
    by (auto split: if_splits sum.splits simp: new_entry_fields)
qed

theorem absent_reference_unverified_witness:
  "\<not> truthy (Some '''') \<and> \<not> truthy None
   \<and> verify_remita_rrr True JsonNotObject 3 (Some '''') = Inr \<lparr>verified = False, amount = 0\<rparr>
   \<and> verify_paydirect_reference True JsonNotObject 3 None = Inr \<lparr>verified = False, amount = 0\<rparr>
   \<and> snd (snd (submit_tax_item mock_world 7 first_form []))
       = [CallRemita (Some ''RRR-123'')]
   \<and> \<not> paydirect_verified (hd (fst (snd (submit_tax_item mock_world 7 first_form []))))
   \<and> paydirect_amount (hd (fst (snd (submit_tax_item mock_world 7 first_form [])))) = Some 0"
  using absent_reference_unverified[of "Some ''''" True JsonNotObject 3 first_form mock_world 7 "[]"
      "Inr ()" "fst (snd (submit_tax_item mock_world 7 first_form []))"
      "snd (snd (submit_tax_item mock_world 7 first_form []))"]
    absent_reference_unverified[of None True JsonNotObject 3 first_form mock_world 7 "[]"
      "Inr ()" "fst (snd (submit_tax_item mock_world 7 first_form []))"
      "snd (snd (submit_tax_item mock_world 7 first_form []))"]
  by (simp add: eval_defs mock_world_def first_form_def example_time_def)

text \<open>What a successful or failed re-verification leaves of the entry it was asked for.\<close>

lemma reverify_found:
  assumes "find (\<lambda>e. entry_id e = i) store = Some entry"
    and "reverify_entry w i store = (res, store', calls)"
  shows "store' = store
       \<or> (\<exists>entry2. store' = map (\<lambda>e. if entry_id e = i then entry2 else e) store
            \<and> entry2 = entry\<lparr>rrr_verified := rrr_verified entry2,
                 rrr_amount := rrr_amount entry2,
                 paydirect_verified := paydirect_verified entry2,
                 paydirect_amount := paydirect_amount entry2\<rparr>
            \<and> (\<not> truthy (rrr entry) \<longrightarrow> rrr_verified entry2 = rrr_verified entry
                   \<and> rrr_amount entry2 = rrr_amount entry)
            \<and> (\<not> truthy (paydirect_ref entry) \<longrightarrow>
                     paydirect_verified entry2 = paydirect_verified entry
                   \<and> paydirect_amount entry2 = paydirect_amount entry))"
  using assms unfolding reverify_entry_def Let_def
  by (auto split: if_splits sum.splits)

lemma reverify_missing:
  "find (\<lambda>e. entry_id e = i) store = None \<Longrightarrow>
     reverify_entry w i store = (Inl NotFound, store, [])"
  by (simp add: reverify_entry_def)

lemma reverify_mock:
  assumes "find (\<lambda>e. entry_id e = i) store = Some entry" and "\<not> USE_LIVE_API w"
  shows "\<exists>entry2. reverify_entry w i store
           = (Inr (), map (\<lambda>e. if entry_id e = i then entry2 else e) store,
              (if truthy (rrr entry) then [CallRemita (rrr entry)] else [])
                @ (if truthy (paydirect_ref entry) then [CallPayDirect (paydirect_ref entry)]
                   else []))
         \<and> rrr entry2 = rrr entry \<and> paydirect_ref entry2 = paydirect_ref entry
         \<and> (if truthy (rrr entry) then rrr_verified entry2 else True)
         \<and> (if truthy (paydirect_ref entry) then paydirect_verified entry2 else True)"
  using assms unfolding reverify_entry_def Let_def
  by (auto simp: verify_remita_rrr_def verify_paydirect_reference_def)

text \<open>
  C9. \<open>reverify_entry\<close> relates the store before and after row by row: every row keeps
  all its fields but the two flags and the two amounts; every row other than the one
  asked for is unchanged; and in a row whose reference of a channel is \<open>None\<close> or empty,
  that channel's flag and amount are unchanged.
\<close>

theorem reverify_frame:
  assumes "distinct (map entry_id store)"
    and "reverify_entry w i store = (res, store', calls)"
  shows "list_all2 (\<lambda>x x'.
            x' = x\<lparr>rrr_verified := rrr_verified x', rrr_amount := rrr_amount x',
                    paydirect_verified := paydirect_verified x',
                    paydirect_amount := paydirect_amount x'\<rparr>
          \<and> (entry_id x \<noteq> i \<longrightarrow> x' = x)
          \<and> (\<not> truthy (rrr x) \<longrightarrow>
                rrr_verified x' = rrr_verified x \<and> rrr_amount x' = rrr_amount x)
          \<and> (\<not> truthy (paydirect_ref x) \<longrightarrow>
                paydirect_verified x' = paydirect_verified x
              \<and> paydirect_amount x' = paydirect_amount x)) store store'"
    (is "list_all2 ?P store store'")
proof -
  have same: "list_all2 ?P store store" by (simp add: list_all2_same)
  show ?thesis
  proof (cases "find (\<lambda>e. entry_id e = i) store")
    case None
    with assms(2) have "store' = store" by (simp add: reverify_missing)
    with same show ?thesis by simp
  next
    case (Some entry)
    then have mem: "entry \<in> set store" and eid: "entry_id entry = i"
      by (auto simp: find_Some_iff)
    have "inj_on entry_id (set store)" using assms(1) by (simp add: distinct_map)
    with mem eid have only: "\<forall>x\<in>set store. entry_id x = i \<longrightarrow> x = entry"
      by (auto dest: inj_onD)
    from reverify_found[OF Some assms(2)] show ?thesis
    proof
      assume "store' = store"
      with same show ?thesis by simp
    next
      assume "\<exists>entry2. store' = map (\<lambda>e. if entry_id e = i then entry2 else e) store
            \<and> entry2 = entry\<lparr>rrr_verified := rrr_verified entry2,
                 rrr_amount := rrr_amount entry2,
                 paydirect_verified := paydirect_verified entry2,
                 paydirect_amount := paydirect_amount entry2\<rparr>
            \<and> (\<not> truthy (rrr entry) \<longrightarrow> rrr_verified entry2 = rrr_verified entry
                   \<and> rrr_amount entry2 = rrr_amount entry)
            \<and> (\<not> truthy (paydirect_ref entry) \<longrightarrow>
                     paydirect_verified entry2 = paydirect_verified entry
                   \<and> paydirect_amount entry2 = paydirect_amount entry)"
      then obtain entry2 where
        st: "store' = map (\<lambda>e. if entry_id e = i then entry2 else e) store"
        and fr: "entry2 = entry\<lparr>rrr_verified := rrr_verified entry2,
                 rrr_amount := rrr_amount entry2,
                 paydirect_verified := paydirect_verified entry2,
                 paydirect_amount := paydirect_amount entry2\<rparr>"
        and c1: "\<not> truthy (rrr entry) \<longrightarrow> rrr_verified entry2 = rrr_verified entry
                   \<and> rrr_amount entry2 = rrr_amount entry"
        and c2: "\<not> truthy (paydirect_ref entry) \<longrightarrow>
                   paydirect_verified entry2 = paydirect_verified entry
                   \<and> paydirect_amount entry2 = paydirect_amount entry"
        by blast
      have pe: "?P entry entry2" using fr c1 c2 eid by blast
      have "\<forall>x\<in>set store. ?P x (if entry_id x = i then entry2 else x)"
      proof
        fix x
        assume x: "x \<in> set store"
        show "?P x (if entry_id x = i then entry2 else x)"
        proof (cases "entry_id x = i")
          case True
          with only x have xe: "x = entry" by blast
          from pe show ?thesis by (simp only: xe eid if_True simp_thms, blast)
        next
          case False
          then show ?thesis by simp
        qed
      qed
      then show ?thesis unfolding st by (simp add: list_all2_map2 list_all2_same)
    qed
  qed
qed

theorem reverify_frame_witness:
  "distinct (map entry_id [example_entry, unverified_entry])
   \<and> reverify_entry mock_world 1 [example_entry, unverified_entry]
       = (Inr (), [example_entry\<lparr>rrr_amount := Some 10005\<rparr>, unverified_entry],
          [CallRemita (Some ''R1'')])
   \<and> paydirect_amount (example_entry\<lparr>rrr_amount := Some 10005\<rparr>) = Some 9999999
   \<and> \<not> paydirect_verified (example_entry\<lparr>rrr_amount := Some 10005\<rparr>)"
  using reverify_frame[of "[example_entry, unverified_entry]" mock_world 1 "Inr ()"
      "[example_entry\<lparr>rrr_amount := Some 10005\<rparr>, unverified_entry]"
      "[CallRemita (Some ''R1'')]"]
  by (simp add: reverify_entry_def verify_remita_rrr_def verify_paydirect_reference_def
      randint_def Let_def mock_world_def example_entry_def unverified_entry_def)

text \<open>
  C10. With the live flag off, for every non-empty reference both verification functions
  return \<open>verified = True\<close> with an amount of the generator's range (10000 to 200000,
  15500 to 502000); every amount of the range is returned for some state of the
  generator, so two calls with the same reference can differ; and a row stored or
  re-verified in this mode has every channel with a non-empty reference verified.
\<close>

theorem mock_verification:
  "(truthy r \<longrightarrow>
      (\<exists>a. verify_remita_rrr False reply n r = Inr \<lparr>verified = True, amount = of_int a\<rparr>
           \<and> 10000 \<le> a \<and> a \<le> 200000)
    \<and> (\<exists>a. verify_paydirect_reference False reply n r
             = Inr \<lparr>verified = True, amount = of_int a\<rparr>
           \<and> 15500 \<le> a \<and> a \<le> 502000)
    \<and> (\<forall>a. 10000 \<le> a \<and> a \<le> 200000 \<longrightarrow>
          (\<exists>m. verify_remita_rrr False reply m r
                 = Inr \<lparr>verified = True, amount = of_int a\<rparr>))
    \<and> (\<forall>a. 15500 \<le> a \<and> a \<le> 502000 \<longrightarrow>
          (\<exists>m. verify_paydirect_reference False reply m r
                 = Inr \<lparr>verified = True, amount = of_int a\<rparr>))
    \<and> (\<exists>m1 m2. verify_remita_rrr False reply m1 r \<noteq> verify_remita_rrr False reply m2 r)
    \<and> (\<exists>m1 m2. verify_paydirect_reference False reply m1 r
                 \<noteq> verify_paydirect_reference False reply m2 r))
   \<and> (\<not> USE_LIVE_API w \<and> submit_tax_item w u form store = (Inr (), store', calls)
       \<longrightarrow> (\<exists>e. store' = store @ [e]
              \<and> (truthy (rrr e) \<longrightarrow> rrr_verified e)
              \<and> (truthy (paydirect_ref e) \<longrightarrow> paydirect_verified e)))
   \<and> (\<not> USE_LIVE_API w \<and> find (\<lambda>e. entry_id e = i) store = Some entry
       \<longrightarrow> (\<exists>entry2. reverify_entry w i store
                = (Inr (), map (\<lambda>e. if entry_id e = i then entry2 else e) store,
                   (if truthy (rrr entry) then [CallRemita (rrr entry)] else [])
                     @ (if truthy (paydirect_ref entry)
                        then [CallPayDirect (paydirect_ref entry)] else []))
              \<and> (truthy (rrr entry2) \<longrightarrow> rrr_verified entry2)
              \<and> (truthy (paydirect_ref entry2) \<longrightarrow> paydirect_verified entry2)))"
proof (intro conjI impI allI)
  assume t: "truthy r"
  show "\<exists>a. verify_remita_rrr False reply n r = Inr \<lparr>verified = True, amount = of_int a\<rparr>
           \<and> 10000 \<le> a \<and> a \<le> 200000"
    using verify_mock(1)[OF t] randint_range[of 10000 200000 n] by auto
  show "\<exists>a. verify_paydirect_reference False reply n r
             = Inr \<lparr>verified = True, amount = of_int a\<rparr> \<and> 15500 \<le> a \<and> a \<le> 502000"
    using verify_mock(2)[OF t] randint_range[of 15500 502000 n] by auto
  have r1: "verify_remita_rrr False reply 0 r \<noteq> verify_remita_rrr False reply 1 r"
    by (simp add: verify_mock(1)[OF t] randint_def)
  then show "\<exists>m1 m2. verify_remita_rrr False reply m1 r \<noteq> verify_remita_rrr False reply m2 r"
    by blast
  have r2: "verify_paydirect_reference False reply 0 r
              \<noteq> verify_paydirect_reference False reply 1 r"
    by (simp add: verify_mock(2)[OF t] randint_def)
  then show "\<exists>m1 m2. verify_paydirect_reference False reply m1 r
                 \<noteq> verify_paydirect_reference False reply m2 r"
    by blast
next
  fix a :: int
  assume t: "truthy r" and a: "10000 \<le> a \<and> a \<le> 200000"
  then have "randint 10000 200000 (nat (a - 10000)) = a" by (simp add: randint_onto)
  then have "verify_remita_rrr False reply (nat (a - 10000)) r
               = Inr \<lparr>verified = True, amount = of_int a\<rparr>"
    by (simp add: verify_mock(1)[OF t])
  then show "\<exists>m. verify_remita_rrr False reply m r = Inr \<lparr>verified = True, amount = of_int a\<rparr>"
    by blast
next
  fix a :: int
  assume t: "truthy r" and a: "15500 \<le> a \<and> a \<le> 502000"
  then have "randint 15500 502000 (nat (a - 15500)) = a" by (simp add: randint_onto)
  then have "verify_paydirect_reference False reply (nat (a - 15500)) r
               = Inr \<lparr>verified = True, amount = of_int a\<rparr>"
    by (simp add: verify_mock(2)[OF t])
  then show "\<exists>m. verify_paydirect_reference False reply m r
                 = Inr \<lparr>verified = True, amount = of_int a\<rparr>"
    by blast
next
  assume "\<not> USE_LIVE_API w \<and> submit_tax_item w u form store = (Inr (), store', calls)"
  then show "\<exists>e. store' = store @ [e]
              \<and> (truthy (rrr e) \<longrightarrow> rrr_verified e)
              \<and> (truthy (paydirect_ref e) \<longrightarrow> paydirect_verified e)"
    unfolding submit_tax_item_def Let_def
    by (auto split: if_splits sum.splits
        simp: new_entry_fields verify_remita_rrr_def verify_paydirect_reference_def)
next
  assume "\<not> USE_LIVE_API w \<and> find (\<lambda>e. entry_id e = i) store = Some entry"
  then have f: "find (\<lambda>e. entry_id e = i) store = Some entry" and m: "\<not> USE_LIVE_API w"
    by simp_all
  from reverify_mock[OF f m] obtain entry2 where
    "reverify_entry w i store
       = (Inr (), map (\<lambda>e. if entry_id e = i then entry2 else e) store,
          (if truthy (rrr entry) then [CallRemita (rrr entry)] else [])
            @ (if truthy (paydirect_ref entry) then [CallPayDirect (paydirect_ref entry)]
               else []))"
    "rrr entry2 = rrr entry" "paydirect_ref entry2 = paydirect_ref entry"
    "if truthy (rrr entry) then rrr_verified entry2 else True"
    "if truthy (paydirect_ref entry) then paydirect_verified entry2 else True"
    by blast
  then show "\<exists>entry2. reverify_entry w i store
                = (Inr (), map (\<lambda>e. if entry_id e = i then entry2 else e) store,
                   (if truthy (rrr entry) then [CallRemita (rrr entry)] else [])
                     @ (if truthy (paydirect_ref entry)
                        then [CallPayDirect (paydirect_ref entry)] else []))
              \<and> (truthy (rrr entry2) \<longrightarrow> rrr_verified entry2)
              \<and> (truthy (paydirect_ref entry2) \<longrightarrow> paydirect_verified entry2)"
    by (intro exI[of _ entry2]) (auto split: if_splits)
qed

theorem mock_verification_witness:
  "truthy (Some ''RRR-123'')
   \<and> verify_remita_rrr False RequestFailed 5 (Some ''RRR-123'')
       = Inr \<lparr>verified = True, amount = 10005\<rparr>
   \<and> verify_remita_rrr False RequestFailed 6 (Some ''RRR-123'')
       = Inr \<lparr>verified = True, amount = 10006\<rparr>
   \<and> verify_paydirect_reference False RequestFailed 9 (Some ''RRR-123'')
       = Inr \<lparr>verified = True, amount = 15509\<rparr>
   \<and> \<not> USE_LIVE_API mock_world
   \<and> fst (submit_tax_item mock_world 7 first_form []) = Inr ()
   \<and> rrr_verified (hd (fst (snd (submit_tax_item mock_world 7 first_form []))))"
  using mock_verification[of "Some ''RRR-123''" RequestFailed 5 mock_world 7 first_form "[]"
      "fst (snd (submit_tax_item mock_world 7 first_form []))"
      "snd (snd (submit_tax_item mock_world 7 first_form []))" 1 example_entry]
  by (simp add: eval_defs mock_world_def first_form_def example_time_def)

section \<open>Properties of the aggregation and the ranking\<close>

lemma mixed_entry_stored:
  "submit_tax_item live_world 1 pending_form []
     = (Inr (), [mixed_entry], [CallRemita (Some ''R1''), CallPayDirect (Some ''P1'')])"
  by (simp add: submit_tax_item_def new_entry_def verify_remita_rrr_def
      verify_paydirect_reference_def next_id_def unique_violation_def Let_def
      live_world_def pending_form_def example_time_def mixed_entry_def)

text \<open>
  C1. The claim asks that a channel's amount count only where that channel's own flag is
  set. \<open>mixed_entry\<close> is what \<open>submit_tax_item\<close> stores when the live Remita reply is
  SUCCESS with 40000 and the live PayDirect reply is PENDING with 30000. On it,
  \<open>get_league_table_data\<close> and \<open>get_user_summary\<close> count the unverified 30000 (total
  70000, 70 percent of the target 100000), while \<open>dashboards\<close> and the query of
  \<open>league_table\<close> count 40000.
\<close>

theorem league_total_counts_unverified_channel:
  "fst (snd (submit_tax_item live_world 1 pending_form [])) = [mixed_entry]
   \<and> get_league_table_data [ada] [mixed_entry] [ada_target]
     = [\<lparr>ato_name = ''ada'', target = 100000, total_returns = 70000, percent_met = 70\<rparr>]
   \<and> get_user_summary [mixed_entry] 1
     = \<lparr>rrr_total = 40000, paydirect_total = 30000, total_amount = 70000\<rparr>
   \<and> dashboards [ada] [mixed_entry] [ada_target]
     = [\<lparr>s_username = ''ada'', s_rrr_total = 40000, s_paydirect_total = 0,
          s_total_amount = 40000, s_target = 100000, s_percent = 40\<rparr>]
   \<and> map Actual (league_table [ada] [mixed_entry] [ada_target] db_example None None)
     = [40000]"
  by (simp add: mixed_entry_stored)
    (simp add: get_league_table_data_def get_target_for_ato_def get_user_summary_def dashboards_def
      league_table_def league_query_def target_join_def in_window_def
      enrich_def case_else0_def sql_sum_def sort_reverse_def py_round_def round_half_even_def
      Let_def ada_def ada_target_def mixed_entry_def example_time_def db_example_def)

lemma enrich_percent:
  "Percent (enrich row) =
     (if or0 (q_Target row) > 0
      then py_round ((or0 (q_RRR row) + or0 (q_Paydirect row)) / or0 (q_Target row) * 100) 2
      else 0)"
  by (simp add: enrich_def Let_def)

text \<open>
  C2. The claim asks for percent 0 whenever the target is 0, negative or absent.
  \<open>get_league_table_data\<close> guards with the truth value of the target, so a negative
  target (\<open>create_ato\<close> stores whatever \<open>float\<close> accepts) divides: 40000 verified against
  the target -100000 gives -40. \<open>league_table\<close>, which guards with \<open>target > 0\<close>, gives 0
  on the same data.
\<close>

theorem negative_target_percent:
  "map percent_met (get_league_table_data [ada] [verified_entry] [negative_target]) = [- 40]
   \<and> map Percent (league_table [ada] [verified_entry] [negative_target]
        db_example None None) = [0]"
  by (simp add: get_league_table_data_def get_target_for_ato_def
      league_table_def league_query_def target_join_def in_window_def
      enrich_def case_else0_def sql_sum_def sort_reverse_def py_round_def round_half_even_def
      Let_def ada_def negative_target_def verified_entry_def example_time_def
      db_example_def)

text \<open>
  C3. The claim asks for a row for every ATO, also one without entries in the window.
  The query of \<open>league_table\<close> inner-joins \<open>tax_entry\<close>: an ATO without entries, or with
  none inside the window, has no row, while \<open>get_league_table_data\<close> lists the same ATO
  with zero totals.
\<close>

theorem league_table_drops_agent_without_entries:
  "league_table [ada] [] [ada_target] db_example None None = []
   \<and> league_table [ada] [mixed_entry] [ada_target] db_example (Some ''2025-04-01'') None = []
   \<and> get_league_table_data [ada] [] [ada_target]
     = [\<lparr>ato_name = ''ada'', target = 100000, total_returns = 0, percent_met = 0\<rparr>]"
  by (simp add: get_league_table_data_def get_target_for_ato_def
      league_table_def league_query_def target_join_def in_window_def
      enrich_def case_else0_def sql_sum_def sort_reverse_def py_round_def round_half_even_def
      Let_def dt_le_def ada_def ada_target_def mixed_entry_def example_time_def
      db_example_def april_first_def)

subsection \<open>The monthly series\<close>

lemma sql_sum_Some: "v \<in> set vs \<Longrightarrow> v \<noteq> None \<Longrightarrow> sql_sum vs \<noteq> None"
proof -
  assume "v \<in> set vs" "v \<noteq> None"
  then have "filter (\<lambda>v. v \<noteq> None) vs \<noteq> []" by (auto simp: filter_empty_conv)
  then show ?thesis by (cases "filter (\<lambda>v. v \<noteq> None) vs") (auto simp: sql_sum_def)
qed

lemma monthly_query_months:
  "map fst (monthly_query es f t) =
     sort (remdups (map (\<lambda>e. dt_month (date_uploaded e))
       (filter (\<lambda>e. (case f of None \<Rightarrow> True | Some a \<Rightarrow> dt_le a (date_uploaded e))
                   \<and> (case t of None \<Rightarrow> True | Some b \<Rightarrow> dt_le (date_uploaded e) b)) es)))"
  by (simp add: monthly_query_def Let_def comp_def)

lemma monthly_query_nonnull:
  assumes ok: "\<forall>e\<in>set es. (rrr_verified e \<longrightarrow> rrr_amount e \<noteq> None)
                       \<and> (paydirect_verified e \<longrightarrow> paydirect_amount e \<noteq> None)"
    and r: "r \<in> set (monthly_query es f t)"
  shows "fst (snd r) \<noteq> None \<and> snd (snd r) \<noteq> None"
proof -
  define kept where "kept = filter (\<lambda>e.
      (case f of None \<Rightarrow> True | Some a \<Rightarrow> dt_le a (date_uploaded e))
      \<and> (case t of None \<Rightarrow> True | Some b \<Rightarrow> dt_le (date_uploaded e) b)) es"
  from r obtain m where m: "m \<in> set (map (\<lambda>e. dt_month (date_uploaded e)) kept)"
    and rm: "r = (m,
        sql_sum (map (\<lambda>e. case_else0 (rrr_verified e) (rrr_amount e))
          (filter (\<lambda>e. dt_month (date_uploaded e) = m) kept)),
        sql_sum (map (\<lambda>e. case_else0 (paydirect_verified e) (paydirect_amount e))
          (filter (\<lambda>e. dt_month (date_uploaded e) = m) kept)))"
    unfolding monthly_query_def Let_def kept_def by auto
  from m obtain e where e: "e \<in> set kept" "dt_month (date_uploaded e) = m" by auto
  then have es: "e \<in> set es" by (simp add: kept_def)
  have a: "case_else0 (rrr_verified e) (rrr_amount e) \<noteq> None"
    using ok es by (auto simp: case_else0_def)
  have b: "case_else0 (paydirect_verified e) (paydirect_amount e) \<noteq> None"
    using ok es by (auto simp: case_else0_def)
  have "case_else0 (rrr_verified e) (rrr_amount e)
          \<in> set (map (\<lambda>e. case_else0 (rrr_verified e) (rrr_amount e))
                (filter (\<lambda>e. dt_month (date_uploaded e) = m) kept))"
    using e by auto
  from sql_sum_Some[OF this a] have 1: "fst (snd r) \<noteq> None" by (simp add: rm)
  have "case_else0 (paydirect_verified e) (paydirect_amount e)
          \<in> set (map (\<lambda>e. case_else0 (paydirect_verified e) (paydirect_amount e))
                (filter (\<lambda>e. dt_month (date_uploaded e) = m) kept))"
    using e by auto
  from sql_sum_Some[OF this b] have 2: "snd (snd r) \<noteq> None" by (simp add: rm)
  from 1 2 show ?thesis by simp
qed

lemma month_row_ok:
  assumes "\<forall>r\<in>set results. fst (snd r) \<noteq> None \<and> snd (snd r) \<noteq> None"
  shows "\<exists>row. month_row results m = Inr row \<and> a_month row = m
           \<and> a_total row = a_rrr row + a_paydirect row
           \<and> (m \<notin> fst ` set results \<longrightarrow> a_rrr row = 0 \<and> a_paydirect row = 0)"
proof (cases "find (\<lambda>r. fst r = m) results")
  case None
  then have "m \<notin> fst ` set results" by (auto simp: find_None_iff)
  with None show ?thesis by (simp add: month_row_def)
next
  case (Some r)
  then have "r \<in> set results" by (auto simp: find_Some_iff in_set_conv_nth)
  with assms obtain a b where "fst (snd r) = Some a" "snd (snd r) = Some b" by auto
  moreover from Some have "m \<in> fst ` set results"
    by (auto simp: find_Some_iff in_set_conv_nth image_iff) (metis fst_conv nth_mem prod.collapse)
  ultimately show ?thesis using Some by (simp add: month_row_def)
qed

lemma months_loop_ok:
  "\<forall>m\<in>set ms. \<exists>row. body m = Inr row \<and> P m row \<Longrightarrow>
   \<exists>rows. months_loop body ms = Inr rows \<and> list_all2 P ms rows"
proof (induction ms)
  case Nil
  then show ?case by simp
next
  case (Cons m ms)
  then obtain row where row: "body m = Inr row" "P m row" by auto
  from Cons obtain rows where rows: "months_loop body ms = Inr rows" "list_all2 P ms rows"
    by auto
  from row rows show ?case by simp
qed

text \<open>
  Where every flagged channel carries an amount and the bounds parse, the series is the
  twelve months in order, with zeros for the months without entries in the window.
\<close>

lemma analytics_twelve_rows:
  assumes ok: "\<forall>e\<in>set es. (rrr_verified e \<longrightarrow> rrr_amount e \<noteq> None)
                       \<and> (paydirect_verified e \<longrightarrow> paydirect_amount e \<noteq> None)"
    and pf: "parse_bound strptime from_date = Inr f"
    and pt: "parse_bound strptime to_date = Inr t"
  shows "\<exists>rows. get_analytics_data_filtered strptime es from_date to_date = Inr rows
           \<and> length rows = 12 \<and> map a_month rows = [1 ..< 13]
           \<and> (\<forall>row\<in>set rows. a_total row = a_rrr row + a_paydirect row
                \<and> (a_month row \<notin> fst ` set (monthly_query es f t)
                     \<longrightarrow> a_rrr row = 0 \<and> a_paydirect row = 0))"
proof -
  let ?res = "monthly_query es f t"
  let ?P = "\<lambda>m row. a_month row = m \<and> a_total row = a_rrr row + a_paydirect row
              \<and> (m \<notin> fst ` set ?res \<longrightarrow> a_rrr row = 0 \<and> a_paydirect row = 0)"
  have nn: "\<forall>r\<in>set ?res. fst (snd r) \<noteq> None \<and> snd (snd r) \<noteq> None"
    using monthly_query_nonnull[OF ok] by blast
  have "\<forall>m\<in>set [1 ..< 13]. \<exists>row. month_row ?res m = Inr row \<and> ?P m row"
    using month_row_ok[OF nn] by blast
  from months_loop_ok[of "[1 ..< 13]" "month_row ?res" ?P, OF this]
  obtain rows where rows: "months_loop (month_row ?res) [1 ..< 13] = Inr rows"
    and all: "list_all2 ?P [1 ..< 13] rows" by blast
  have len: "length rows = 12" using list_all2_lengthD[OF all] by simp
  have "list_all2 (\<lambda>m row. a_month row = m) [1 ..< 13] rows"
    using all by (rule list_all2_mono) simp
  then have mon: "map a_month rows = [1 ..< 13]"
    by (simp add: list_all2_conv_all_nth list_eq_iff_nth_eq)
  have each: "\<forall>row\<in>set rows. a_total row = a_rrr row + a_paydirect row
                \<and> (a_month row \<notin> fst ` set ?res \<longrightarrow> a_rrr row = 0 \<and> a_paydirect row = 0)"
  proof
    fix row
    assume "row \<in> set rows"
    then obtain k where k: "k < length rows" "rows ! k = row" by (auto simp: in_set_conv_nth)
    with all have "?P ([1 ..< 13] ! k) row" by (auto simp: list_all2_conv_all_nth)
    then show "a_total row = a_rrr row + a_paydirect row
                \<and> (a_month row \<notin> fst ` set ?res \<longrightarrow> a_rrr row = 0 \<and> a_paydirect row = 0)"
      by auto
  qed
  show ?thesis
    using rows len mon each pf pt by (simp add: get_analytics_data_filtered_def)
qed

text \<open>
  C4. The claim asks for twelve rows on every set of entries. The amount columns are
  nullable: for a month whose only entry has a flagged channel without an amount, the
  SQL sum is \<open>NULL\<close> and \<open>float(r.rrr)\<close> raises \<open>TypeError\<close>, where the same sums are
  read as \<open>float(row.rrr_total or 0)\<close> elsewhere in the file. The same entry with its
  amount set gives the twelve rows.
\<close>

theorem monthly_series_null_sum_raises:
  "get_analytics_data_filtered strptime_example [null_amount_entry] None None = Inl TypeError
   \<and> map (\<lambda>row. (a_month row, a_rrr row, a_paydirect row, a_total row))
       (projr (get_analytics_data_filtered strptime_example [verified_entry] None None))
     = [(1, 0, 0, 0), (2, 0, 0, 0), (3, 40000, 0, 40000), (4, 0, 0, 0), (5, 0, 0, 0),
        (6, 0, 0, 0), (7, 0, 0, 0), (8, 0, 0, 0), (9, 0, 0, 0), (10, 0, 0, 0),
        (11, 0, 0, 0), (12, 0, 0, 0)]"
  by (simp add: get_analytics_data_filtered_def parse_bound_def monthly_query_def
      month_row_def sql_sum_def case_else0_def Let_def upt_rec
      null_amount_entry_def verified_entry_def example_time_def strptime_example_def)

subsection \<open>The league sort\<close>

lemma sort_reverse_sorted: "sorted_wrt (\<lambda>a b. key a \<ge> key b) (sort_reverse key xs)"
proof -
  have "sorted (map key (sort_key key (rev xs)))" by (rule sorted_sort_key)
  then have "sorted_wrt (\<lambda>a b. key a \<le> key b) (sort_key key (rev xs))"
    by (simp add: sorted_wrt_map)
  then show ?thesis by (simp add: sort_reverse_def sorted_wrt_rev)
qed

lemma sort_reverse_stable:
  "filter (\<lambda>y. key y = k) (sort_reverse key xs) = filter (\<lambda>y. key y = k) xs"
proof -
  have "filter (\<lambda>y. key y = k) (sort_reverse key xs)
          = rev (filter (\<lambda>y. key y = k) (sort_key key (rev xs)))"
    by (simp add: sort_reverse_def rev_filter)
  also have "\<dots> = rev (filter (\<lambda>y. key y = k) (rev xs))" by (simp add: sort_key_stable)
  also have "\<dots> = filter (\<lambda>y. key y = k) xs" by (simp add: rev_filter)
  finally show ?thesis .
qed

lemma sort_reverse_mset: "mset (sort_reverse key xs) = mset xs"
  by (simp add: sort_reverse_def)

lemma sort_reverse_idem: "sort_reverse key (sort_reverse key xs) = sort_reverse key xs"
  by (simp add: sort_reverse_def sort_key_id_if_sorted)

text \<open>
  C5 as stated asks for ties in percent to be broken by agent name ascending. Neither
  league does that: the sort key is the percent alone. Two rows without target (percent
  0 both) that the query returns as zed, amy stay in that order.
\<close>

theorem league_tie_break_counterexample:
  "map d_ATO (dashboard_league tied_rows) = [''zed'', ''amy'']
   \<and> map d_Percent (dashboard_league tied_rows) = [0, 0]
   \<and> map ATO (league_table [zed, amy] [verified_entry, amy_entry] [] db_example None None)
       = [''zed'', ''amy'']
   \<and> map Percent (league_table [zed, amy] [verified_entry, amy_entry] [] db_example None None)
       = [0, 0]
   \<and> \<not> ''zed'' \<le> ''amy''"
  by (simp add: dashboard_league_def dashboard_enrich_def
      league_table_def league_query_def target_join_def in_window_def
      enrich_def case_else0_def sql_sum_def sort_reverse_def py_round_def round_half_even_def
      Let_def zed_def amy_def verified_entry_def amy_entry_def tied_rows_def
      example_time_def db_example_def)

text \<open>
  C5, amended. Both leagues are sorted by percent descending; rows of equal percent keep
  the order in which the query returned them (the sort is stable and has no tie-break
  by name); no row is lost or added; and sorting a league again changes nothing, so the
  same query result always gives the same league.
\<close>

theorem league_sort_stable_descending:
  "sorted_wrt (\<lambda>a b. Percent a \<ge> Percent b) (league_table users es ts db f t)
   \<and> sort_reverse Percent (league_table users es ts db f t) = league_table users es ts db f t
   \<and> mset (league_table users es ts db f t) = mset (map enrich (league_query users es ts db f t))
   \<and> filter (\<lambda>r. Percent r = k) (league_table users es ts db f t)
       = filter (\<lambda>r. Percent r = k) (map enrich (league_query users es ts db f t))
   \<and> sorted_wrt (\<lambda>a b. d_Percent a \<ge> d_Percent b) (dashboard_league league_rows)
   \<and> sort_reverse d_Percent (dashboard_league league_rows) = dashboard_league league_rows
   \<and> mset (dashboard_league league_rows) = mset (map dashboard_enrich league_rows)
   \<and> filter (\<lambda>r. d_Percent r = k') (dashboard_league league_rows)
       = filter (\<lambda>r. d_Percent r = k') (map dashboard_enrich league_rows)"
  unfolding league_table_def dashboard_league_def
  by (intro conjI sort_reverse_sorted sort_reverse_idem sort_reverse_mset sort_reverse_stable)

end
